theory Spec2Isabelle
  imports Main "HOL-Library.Word" "HOL-Library.Multiset"
begin

section \<open>The job-part plan file (JobPartPlanHeader, JobPartPlanTransfer)\<close>

text \<open>
  The plan file is a memory-mapped region that the Go code addresses through
  \<open>unsafe.Pointer\<close> and \<open>uintptr\<close> arithmetic. A \<open>uintptr\<close> of the 64-bit
  targets is a \<open>64 word\<close>: its \<open>+\<close> and \<open>*\<close> wrap around as Go's do.
\<close>

type_synonym uintptr = "64 word"
type_synonym byte = "8 word"

datatype plan_error =
    TransferIndexOutOfRange   \<comment> \<open>\<open>panic(errors.New("requesting a transfer index greater than what is available"))\<close>\<close>
  | InvalidMemoryAccess       \<comment> \<open>the Go runtime aborts: unmapped address, or a slice of negative length\<close>

text \<open>
  \<open>JobPartPlanTransfer\<close>, field by field with the widths of the Go struct.
  \<open>atomicTransferStatus\<close> is the \<open>Value int32\<close> of \<open>common.TransferStatus\<close>,
  the word the atomic operations work on.
\<close>

record JobPartPlanTransfer =
  SrcOffset :: "64 word"
  SrcLength :: "16 word"
  DstLength :: "16 word"
  ModifiedTime :: "64 word"
  SourceSize :: "64 word"
  CompletionTime :: "64 word"
  atomicTransferStatus :: "32 word"

text \<open>
  Of \<open>JobPartPlanHeader\<close> the accessors below read \<open>NumTransfers\<close> and
  \<open>atomicJobStatus\<close> only; the other fields are constants of types declared in
  package \<open>common\<close> that no function of this file inspects.
\<close>

record JobPartPlanHeader =
  NumTransfers :: "32 word"
  atomicJobStatus :: "32 word"

text \<open>
  The process memory seen through the raw pointers: the bytes that are mapped
  (\<open>None\<close> is an unmapped address, where a read faults), and the two struct types
  read through a pointer cast.
\<close>

record memory =
  bytes :: "uintptr \<Rightarrow> byte option"
  headers :: "uintptr \<Rightarrow> JobPartPlanHeader option"
  transfers :: "uintptr \<Rightarrow> JobPartPlanTransfer option"

subsection \<open>JobStatus, SetJobStatus\<close>

definition JobStatus :: "JobPartPlanHeader \<Rightarrow> 32 word" where
  "JobStatus jpph = atomicJobStatus jpph"

definition SetJobStatus :: "32 word \<Rightarrow> JobPartPlanHeader \<Rightarrow> JobPartPlanHeader" where
  "SetJobStatus status jpph = jpph\<lparr>atomicJobStatus := status\<rparr>"

subsection \<open>Transfer\<close>

text \<open>
  \<open>Transfer\<close> panics when \<open>transferIndex >= jpph.NumTransfers\<close> and otherwise
  returns the pointer
  \<open>(jpph + Sizeof(*jpph)) + (Sizeof(JobPartPlanTransfer{}) * uintptr(transferIndex))\<close>.
  The two \<open>unsafe.Sizeof\<close> constants depend on types of package \<open>common\<close> and on
  the compiler's layout, so they are the parameters \<open>hdrSize\<close> and \<open>recSize\<close>.
\<close>

definition Transfer ::
  "uintptr \<Rightarrow> uintptr \<Rightarrow> uintptr \<Rightarrow> JobPartPlanHeader \<Rightarrow> 32 word \<Rightarrow> plan_error + uintptr" where
  "Transfer hdrSize recSize jpphAddr jpph transferIndex =
     (if transferIndex \<ge> NumTransfers jpph then Inl TransferIndexOutOfRange
      else Inr ((jpphAddr + hdrSize) + (recSize * ucast transferIndex)))"

text \<open>The addresses of the bytes of the struct of size \<open>n\<close> at address \<open>a\<close>.\<close>

definition byte_range :: "uintptr \<Rightarrow> uintptr \<Rightarrow> uintptr set" where
  "byte_range a n = {a + k | k. k < n}"

subsection \<open>TransferSrcDstStrings\<close>

text \<open>
  Reading \<open>n\<close> consecutive bytes from address \<open>a\<close> on: a fault as soon as one of
  them is not mapped.
\<close>

fun read_bytes :: "memory \<Rightarrow> uintptr \<Rightarrow> nat \<Rightarrow> byte list option" where
  "read_bytes mem a 0 = Some []"
| "read_bytes mem a (Suc n) =
     (case bytes mem a of
        None \<Rightarrow> None
      | Some b \<Rightarrow> (case read_bytes mem (a + 1) n of
                    None \<Rightarrow> None
                  | Some bs \<Rightarrow> Some (b # bs)))"

text \<open>
  \<open>string(slice)\<close> for a slice whose header was written by hand: \<open>Data\<close> is the
  address, \<open>Len\<close> the \<open>int\<close> length. The conversion copies \<open>Len\<close> bytes from
  \<open>Data\<close>; a negative \<open>Len\<close> or an unmapped byte aborts the program. A Go string
  is its bytes.
\<close>

definition slice_to_string :: "memory \<Rightarrow> uintptr \<Rightarrow> int \<Rightarrow> plan_error + byte list" where
  "slice_to_string mem data len =
     (if len < 0 then Inl InvalidMemoryAccess
      else case read_bytes mem data (nat len) of
             None \<Rightarrow> Inl InvalidMemoryAccess
           | Some bs \<Rightarrow> Inr bs)"

text \<open>
  \<open>TransferSrcDstStrings\<close>: the receiver \<open>jpph\<close> is the address \<open>jpphAddr\<close>;
  \<open>uintptr(jppt.SrcOffset)\<close> reinterprets the \<open>int64\<close>, \<open>uintptr(jppt.SrcLength)\<close>
  and \<open>int(jppt.SrcLength)\<close> sign-extend the \<open>int16\<close>. The function receives no
  length of the mapped region.
\<close>

definition TransferSrcDstStrings ::
  "uintptr \<Rightarrow> uintptr \<Rightarrow> memory \<Rightarrow> uintptr \<Rightarrow> 32 word \<Rightarrow> plan_error + (byte list \<times> byte list)" where
  "TransferSrcDstStrings hdrSize recSize mem jpphAddr transferIndex =
     (case headers mem jpphAddr of
        None \<Rightarrow> Inl InvalidMemoryAccess
      | Some jpph \<Rightarrow>
         (case Transfer hdrSize recSize jpphAddr jpph transferIndex of
            Inl e \<Rightarrow> Inl e
          | Inr p \<Rightarrow>
             (case transfers mem p of
                None \<Rightarrow> Inl InvalidMemoryAccess
              | Some jppt \<Rightarrow>
                 (case slice_to_string mem (jpphAddr + SrcOffset jppt) (sint (SrcLength jppt)) of
                    Inl e \<Rightarrow> Inl e
                  | Inr source \<Rightarrow>
                     (case slice_to_string mem
                             (jpphAddr + SrcOffset jppt + scast (SrcLength jppt))
                             (sint (DstLength jppt)) of
                        Inl e \<Rightarrow> Inl e
                      | Inr destination \<Rightarrow> Inr (source, destination))))))"

text \<open>
  The mapped region of a plan file is the slice \<open>JobPartPlanMMF\<close>: \<open>len\<close> bytes from
  \<open>base\<close> on (\<open>Plan()\<close> returns \<open>base\<close> as the header pointer). A range of \<open>n\<close>
  bytes at \<open>a\<close> lies within the region when it starts and ends inside it.
\<close>

definition range_within_region :: "uintptr \<Rightarrow> nat \<Rightarrow> uintptr \<Rightarrow> nat \<Rightarrow> bool" where
  "range_within_region base len a n = (unat (a - base) + n \<le> len)"

subsection \<open>TransferStatus, SetTransferStatus\<close>

definition TransferStatus :: "JobPartPlanTransfer \<Rightarrow> 32 word" where
  "TransferStatus jppt = atomicTransferStatus jppt"

text \<open>
  Modelled from the spec: \<open>common.Iffint32(test, trueVal, falseVal)\<close> is declared in
  package \<open>common\<close>, outside the sources at hand. It is the conditional on \<open>int32\<close>
  that section 4.2 describes: the current value is kept if the test holds, the new
  status is taken otherwise.
\<close>

definition Iffint32 :: "bool \<Rightarrow> 32 word \<Rightarrow> 32 word \<Rightarrow> 32 word" where
  "Iffint32 test trueVal falseVal = (if test then trueVal else falseVal)"

text \<open>
  Modelled from the spec: \<open>common.AtomicMorphInt32\<close> is declared in package
  \<open>common\<close>, outside the sources at hand. The specification describes it as a
  compare-and-swap retry loop: read the current value, compute the desired value
  with the morpher, atomically replace the current value, retry on contention.
  Calls are taken one after the other, so the compare-and-swap of the first round
  finds the value it read and succeeds. The result is the new content of the
  target together with the morpher's second result.
\<close>

definition AtomicMorphInt32 :: "32 word \<Rightarrow> (32 word \<Rightarrow> 32 word \<times> 'r) \<Rightarrow> 32 word \<times> 'r" where
  "AtomicMorphInt32 target morpher =
     (let currentVal = target;
          (desiredVal, morphResult) = morpher currentVal
      in if target = currentVal then (desiredVal, morphResult) else (target, morphResult))"

text \<open>
  \<open>SetTransferStatus\<close>; \<open>failed\<close> is the constant
  \<open>(common.TransferStatus{}).Failed().Value\<close>, declared in package \<open>common\<close>.
\<close>

definition SetTransferStatus :: "32 word \<Rightarrow> 32 word \<Rightarrow> JobPartPlanTransfer \<Rightarrow> JobPartPlanTransfer" where
  "SetTransferStatus failed status jppt =
     jppt\<lparr>atomicTransferStatus :=
       fst (AtomicMorphInt32 (atomicTransferStatus jppt)
             (\<lambda>startVal. (Iffint32 (startVal = failed) startVal status, ())))\<rparr>"

section \<open>The status manager (jobStatusManager.go)\<close>

text \<open>
  The file comes in two variants. In the first (\<open>SendJobPartCreatedMsg\<close>,
  \<open>SendXferDoneMsg\<close>, \<open>ResurrectSummary\<close>) the global \<open>jstm.js\<close> is a
  \<open>common.ListJobSummaryResponse\<close> value; in the second (\<open>InitStatusMgr\<close>,
  \<open>SMUpdateJobpartCreated\<close>, \<open>SMUpdateXferDone\<close>) it is a pointer that is
  \<open>nil\<close> until \<open>InitStatusMgr\<close> installs a summary. Both define
  \<open>ListJobSummary\<close>. Every function runs under the mutex \<open>jstm.m\<close>, so calls
  are taken one after the other and the state is passed explicitly.
\<close>

text \<open>
  Modelled from the spec: \<open>common.TransferStatus\<close> and its enumeration
  \<open>common.ETransferStatus\<close> are declared in package \<open>common\<close>, outside the sources
  at hand. The six values are the ones the \<open>switch\<close> of \<open>SendXferDoneMsg\<close> names;
  \<open>OtherTransferStatus\<close> stands for every further value of the enumeration (the
  spec: not every status value represents a terminal per-transfer outcome).
\<close>

datatype ETransferStatus =
    Success
  | Failed
  | TierAvailabilityCheckFailure
  | BlobTierFailure
  | SkippedEntityAlreadyExists
  | SkippedBlobHasSnapshots
  | OtherTransferStatus nat

text \<open>
  Modelled from the spec: \<open>common.TransferDetail\<close> (the \<open>xferDoneMsg\<close>) is declared
  in package \<open>common\<close>. The code reads its fields \<open>TransferStatus\<close> (here
  \<open>xferStatus\<close>, the name \<open>TransferStatus\<close> being the accessor of
  \<open>JobPartPlanTransfer\<close>) and \<open>TransferSize\<close>; source and destination are the
  detail the spec lists.
\<close>

record TransferDetail =
  Src :: string
  Dst :: string
  xferStatus :: ETransferStatus
  TransferSize :: "64 word"

type_synonym xferDoneMsg = TransferDetail

record jobPartCreatedMsg =
  totalTransfers :: "32 word"
  isFinalPart :: bool
  totalBytesEnumerated :: "64 word"
  fileTransfers :: "32 word"
  folderTransfer :: "32 word"

text \<open>
  Modelled from the spec: \<open>common.ListJobSummaryResponse\<close> is declared in package
  \<open>common\<close>; its fields are the report shape of section 6 under the names the code
  uses. The widths of the counters updated with \<open>+=\<close> from a message field are the
  widths of \<open>jobPartCreatedMsg\<close> (Go adds operands of one type only): \<open>uint32\<close> for
  \<open>TotalTransfers\<close>, \<open>FileTransfers\<close>, \<open>FolderPropertyTransfers\<close>, \<open>uint64\<close>
  for \<open>TotalBytesEnumerated\<close> and \<open>TotalBytesExpected\<close>. The three outcome
  counters are taken as \<open>uint32\<close> and \<open>TotalBytesTransferred\<close> as \<open>uint64\<close>
  likewise. \<open>Timestamp\<close> is an instant, \<open>JobID\<close> the 16 bytes of a UUID.
\<close>

record ListJobSummaryResponse =
  Timestamp :: int
  JobID :: "128 word"
  ErrorMsg :: string
  CompleteJobOrdered :: bool
  TotalTransfers :: "32 word"
  FileTransfers :: "32 word"
  FolderPropertyTransfers :: "32 word"
  TransfersCompleted :: "32 word"
  TransfersFailed :: "32 word"
  TransfersSkipped :: "32 word"
  TotalBytesEnumerated :: "64 word"
  TotalBytesExpected :: "64 word"
  TotalBytesTransferred :: "64 word"
  FailedTransfers :: "TransferDetail list"
  SkippedTransfers :: "TransferDetail list"

subsection \<open>First variant: \<open>jstm.js\<close> is a value\<close>

definition SendJobPartCreatedMsg ::
  "jobPartCreatedMsg \<Rightarrow> ListJobSummaryResponse \<Rightarrow> ListJobSummaryResponse" where
  "SendJobPartCreatedMsg msg js =
     js\<lparr>CompleteJobOrdered := CompleteJobOrdered js \<or> isFinalPart msg,
        TotalTransfers := TotalTransfers js + totalTransfers msg,
        FileTransfers := FileTransfers js + fileTransfers msg,
        FolderPropertyTransfers := FolderPropertyTransfers js + folderTransfer msg,
        TotalBytesEnumerated := TotalBytesEnumerated js + totalBytesEnumerated msg,
        TotalBytesExpected := TotalBytesExpected js + totalBytesEnumerated msg\<rparr>"

definition SendXferDoneMsg :: "xferDoneMsg \<Rightarrow> ListJobSummaryResponse \<Rightarrow> ListJobSummaryResponse" where
  "SendXferDoneMsg msg js =
     (if xferStatus msg = Success then
        js\<lparr>TransfersCompleted := TransfersCompleted js + 1,
           TotalBytesTransferred := TotalBytesTransferred js + TransferSize msg\<rparr>
      else if xferStatus msg = Failed
            \<or> xferStatus msg = TierAvailabilityCheckFailure
            \<or> xferStatus msg = BlobTierFailure then
        js\<lparr>TransfersFailed := TransfersFailed js + 1,
           FailedTransfers := FailedTransfers js @ [msg]\<rparr>
      else if xferStatus msg = SkippedEntityAlreadyExists
            \<or> xferStatus msg = SkippedBlobHasSnapshots then
        js\<lparr>TransfersSkipped := TransfersSkipped js + 1,
           SkippedTransfers := SkippedTransfers js @ [msg]\<rparr>
      else js)"

text \<open>
  \<open>ListJobSummary\<close> of the first variant writes four fields of the stored summary
  and returns a copy of it. \<open>now\<close> is \<open>time.Now().UTC()\<close>, \<open>jobID\<close> is
  \<open>jm.jobID\<close>. The result is the pair of the stored summary after the call and
  the returned copy.
\<close>

definition ListJobSummary1 ::
  "int \<Rightarrow> 128 word \<Rightarrow> ListJobSummaryResponse \<Rightarrow> ListJobSummaryResponse \<times> ListJobSummaryResponse" where
  "ListJobSummary1 now jobID js =
     (let js' = js\<lparr>Timestamp := now, JobID := jobID, CompleteJobOrdered := False, ErrorMsg := []\<rparr>
      in (js', js'))"

definition ResurrectSummary :: "ListJobSummaryResponse \<Rightarrow> ListJobSummaryResponse \<Rightarrow> ListJobSummaryResponse" where
  "ResurrectSummary js jstm_js = js"

subsection \<open>Second variant: \<open>jstm.js\<close> is a pointer\<close>

text \<open>
  The pointer \<open>jstm.js\<close> is \<open>None\<close> when \<open>nil\<close> and \<open>Some\<close> of the summary it
  points to otherwise. A function returns how it ended together with the state it
  leaves behind.
\<close>

datatype sm_error =
    StatusMgrAlreadyInit     \<comment> \<open>\<open>jm.Panic(fmt.Errorf("StatusMgr already init"))\<close>\<close>
  | NilPointerDereference    \<comment> \<open>a field of \<open>jstm.js\<close> accessed while it is \<open>nil\<close>\<close>

type_synonym jstm_state = "ListJobSummaryResponse option"

text \<open>
  Modelled from the spec: \<open>jm.Panic\<close> is a method of \<open>jobMgr\<close>, declared outside the
  sources at hand. The specification calls the second initialisation fatal: the call
  does not return, so the statements after it are not executed and the state is the
  one at the call.
\<close>

definition Panic :: "sm_error \<Rightarrow> jstm_state \<Rightarrow> sm_error option \<times> jstm_state" where
  "Panic err jstm_js = (Some err, jstm_js)"

definition InitStatusMgr :: "ListJobSummaryResponse option \<Rightarrow> jstm_state \<Rightarrow> sm_error option \<times> jstm_state" where
  "InitStatusMgr js jstm_js =
     (if jstm_js \<noteq> None then Panic StatusMgrAlreadyInit jstm_js
      else (None, js))"

definition SMUpdateJobpartCreated :: "jobPartCreatedMsg \<Rightarrow> jstm_state \<Rightarrow> sm_error option \<times> jstm_state" where
  "SMUpdateJobpartCreated msg jstm_js =
     (case jstm_js of
        None \<Rightarrow> (Some NilPointerDereference, jstm_js)
      | Some js \<Rightarrow>
          (None, Some (js\<lparr>CompleteJobOrdered := CompleteJobOrdered js \<or> isFinalPart msg,
                          TotalTransfers := TotalTransfers js + totalTransfers msg,
                          FileTransfers := FileTransfers js + fileTransfers msg,
                          FolderPropertyTransfers := FolderPropertyTransfers js + folderTransfer msg,
                          TotalBytesEnumerated := TotalBytesEnumerated js + totalBytesEnumerated msg,
                          TotalBytesExpected := TotalBytesExpected js + totalBytesEnumerated msg\<rparr>)))"

text \<open>
  In \<open>SMUpdateXferDone\<close> the pointer is dereferenced inside the branches of the
  \<open>switch\<close> only: a message whose status matches no case returns without touching
  it.
\<close>

definition SMUpdateXferDone :: "xferDoneMsg \<Rightarrow> jstm_state \<Rightarrow> sm_error option \<times> jstm_state" where
  "SMUpdateXferDone msg jstm_js =
     (if xferStatus msg = Success then
        (case jstm_js of
           None \<Rightarrow> (Some NilPointerDereference, jstm_js)
         | Some js \<Rightarrow>
             (None, Some (js\<lparr>TransfersCompleted := TransfersCompleted js + 1,
                             TotalBytesTransferred := TotalBytesTransferred js + TransferSize msg\<rparr>)))
      else if xferStatus msg = Failed
            \<or> xferStatus msg = TierAvailabilityCheckFailure
            \<or> xferStatus msg = BlobTierFailure then
        (case jstm_js of
           None \<Rightarrow> (Some NilPointerDereference, jstm_js)
         | Some js \<Rightarrow>
             (None, Some (js\<lparr>TransfersFailed := TransfersFailed js + 1,
                             FailedTransfers := FailedTransfers js @ [msg]\<rparr>)))
      else if xferStatus msg = SkippedEntityAlreadyExists
            \<or> xferStatus msg = SkippedBlobHasSnapshots then
        (case jstm_js of
           None \<Rightarrow> (Some NilPointerDereference, jstm_js)
         | Some js \<Rightarrow>
             (None, Some (js\<lparr>TransfersSkipped := TransfersSkipped js + 1,
                             SkippedTransfers := SkippedTransfers js @ [msg]\<rparr>)))
      else (None, jstm_js))"

text \<open>
  \<open>ListJobSummary\<close> of the second variant copies the summary the pointer refers to
  and returns the copy; it writes nothing.
\<close>

definition ListJobSummary2 :: "jstm_state \<Rightarrow> sm_error + ListJobSummaryResponse" where
  "ListJobSummary2 jstm_js =
     (case jstm_js of
        None \<Rightarrow> Inl NilPointerDereference
      | Some js \<Rightarrow> Inr js)"

section \<open>The dispatcher (xfer.go)\<close>






section \<open>Sequences of events, and the values used in the examples\<close>

text \<open>A sequence of events applied to the summary, one call after the other.\<close>

definition apply_part_created ::
  "jobPartCreatedMsg list \<Rightarrow> ListJobSummaryResponse \<Rightarrow> ListJobSummaryResponse" where
  "apply_part_created msgs js = fold SendJobPartCreatedMsg msgs js"

definition apply_xfer_done ::
  "xferDoneMsg list \<Rightarrow> ListJobSummaryResponse \<Rightarrow> ListJobSummaryResponse" where
  "apply_xfer_done msgs js = fold SendXferDoneMsg msgs js"

definition sm_apply_part_created :: "jobPartCreatedMsg list \<Rightarrow> jstm_state \<Rightarrow> jstm_state" where
  "sm_apply_part_created msgs jstm_js = fold (\<lambda>msg st. snd (SMUpdateJobpartCreated msg st)) msgs jstm_js"

definition sm_apply_xfer_done :: "xferDoneMsg list \<Rightarrow> jstm_state \<Rightarrow> jstm_state" where
  "sm_apply_xfer_done msgs jstm_js = fold (\<lambda>msg st. snd (SMUpdateXferDone msg st)) msgs jstm_js"

text \<open>A sequence of \<open>InitStatusMgr\<close> calls, each leaving its state to the next.\<close>

definition sm_init_all :: "ListJobSummaryResponse option list \<Rightarrow> jstm_state \<Rightarrow> jstm_state" where
  "sm_init_all calls jstm_js = fold (\<lambda>js st. snd (InitStatusMgr js st)) calls jstm_js"

text \<open>
  A sequence of snapshots of the first variant, each with its current time and job
  id, and the part of a summary that the aggregator accumulates: its counters and
  its two detail lists.
\<close>

definition snapshots1 :: "(int \<times> 128 word) list \<Rightarrow> ListJobSummaryResponse \<Rightarrow> ListJobSummaryResponse" where
  "snapshots1 calls js = fold (\<lambda>(now, jobID) st. fst (ListJobSummary1 now jobID st)) calls js"

definition counters_and_details ::
  "ListJobSummaryResponse \<Rightarrow>
     (32 word \<times> 32 word \<times> 32 word \<times> 32 word \<times> 32 word \<times> 32 word)
     \<times> (64 word \<times> 64 word \<times> 64 word) \<times> TransferDetail list \<times> TransferDetail list" where
  "counters_and_details js =
     ((TotalTransfers js, FileTransfers js, FolderPropertyTransfers js,
       TransfersCompleted js, TransfersFailed js, TransfersSkipped js),
      (TotalBytesEnumerated js, TotalBytesExpected js, TotalBytesTransferred js),
      FailedTransfers js, SkippedTransfers js)"

text \<open>What one outcome contributes to the counters, and the bucket it falls in.\<close>

definition completed_inc :: "xferDoneMsg \<Rightarrow> 32 word" where
  "completed_inc msg = (if xferStatus msg = Success then 1 else 0)"

definition bytes_inc :: "xferDoneMsg \<Rightarrow> 64 word" where
  "bytes_inc msg = (if xferStatus msg = Success then TransferSize msg else 0)"

definition is_failure :: "xferDoneMsg \<Rightarrow> bool" where
  "is_failure msg =
     (xferStatus msg = Failed \<or> xferStatus msg = TierAvailabilityCheckFailure
      \<or> xferStatus msg = BlobTierFailure)"

definition is_skip :: "xferDoneMsg \<Rightarrow> bool" where
  "is_skip msg =
     (xferStatus msg = SkippedEntityAlreadyExists \<or> xferStatus msg = SkippedBlobHasSnapshots)"

text \<open>The zero value of \<open>ListJobSummaryResponse\<close>: the fresh summary of a new job.\<close>

definition zero_summary :: ListJobSummaryResponse where
  "zero_summary =
     \<lparr>Timestamp = 0, JobID = 0, ErrorMsg = [], CompleteJobOrdered = False,
      TotalTransfers = 0, FileTransfers = 0, FolderPropertyTransfers = 0,
      TransfersCompleted = 0, TransfersFailed = 0, TransfersSkipped = 0,
      TotalBytesEnumerated = 0, TotalBytesExpected = 0, TotalBytesTransferred = 0,
      FailedTransfers = [], SkippedTransfers = []\<rparr>"

definition outcome :: "ETransferStatus \<Rightarrow> 64 word \<Rightarrow> xferDoneMsg" where
  "outcome status nbytes =
     \<lparr>Src = ''/a/b.txt'', Dst = ''container/b.txt'', xferStatus = status, TransferSize = nbytes\<rparr>"

definition part_created :: "32 word \<Rightarrow> bool \<Rightarrow> 64 word \<Rightarrow> jobPartCreatedMsg" where
  "part_created n final nbytes =
     \<lparr>totalTransfers = n, isFinalPart = final, totalBytesEnumerated = nbytes,
      fileTransfers = n, folderTransfer = 0\<rparr>"

text \<open>
  A plan file of one transfer, mapped at \<open>0x10000\<close>: a header of 1600 bytes, one
  record of 48 bytes at \<open>0x10640\<close> and a string blob of 8 bytes at \<open>0x10670\<close>
  holding \<open>abcd\<close> and \<open>efgh\<close>, 1656 bytes in all. The operating system maps whole
  pages, so the addresses up to \<open>0x11000\<close> are readable too and hold zeros. The
  record's \<open>DstLength\<close> is the parameter.
\<close>

definition page_memory :: "16 word \<Rightarrow> memory" where
  "page_memory dstLength =
     \<lparr>bytes = (\<lambda>a. if 0x10000 \<le> a \<and> a < 0x11000
                   then Some (if 0x10670 \<le> a \<and> a < 0x10678 then ucast (a - 0x10670) + 0x61 else 0)
                   else None),
      headers = (\<lambda>a. if a = 0x10000 then Some \<lparr>NumTransfers = 1, atomicJobStatus = 0\<rparr> else None),
      transfers = (\<lambda>a. if a = 0x10640
                   then Some \<lparr>SrcOffset = 1648, SrcLength = 4, DstLength = dstLength,
                              ModifiedTime = 0, SourceSize = 0, CompletionTime = 0,
                              atomicTransferStatus = 0\<rparr>
                   else None)\<rparr>"

section \<open>Properties of the plan file\<close>

lemma SetTransferStatus_status:
  "atomicTransferStatus (SetTransferStatus failed status jppt) =
     (if atomicTransferStatus jppt = failed then atomicTransferStatus jppt else status)"
  by (simp add: SetTransferStatus_def AtomicMorphInt32_def Iffint32_def)

lemma SetTransferStatus_fold_failed:
  "atomicTransferStatus jppt = failed \<Longrightarrow>
   atomicTransferStatus (fold (SetTransferStatus failed) calls jppt) = failed"
  by (induction calls arbitrary: jppt) (simp_all add: SetTransferStatus_status)

lemma SetTransferStatus_fold_sticky:
  "failed \<in> set calls \<Longrightarrow>
   atomicTransferStatus (fold (SetTransferStatus failed) calls jppt) = failed"
proof (induction calls arbitrary: jppt)
  case Nil
  then show ?case by simp
next
  case (Cons c calls)
  show ?case
  proof (cases "c = failed")
    case True
    then have "atomicTransferStatus (SetTransferStatus failed c jppt) = failed"
      by (simp add: SetTransferStatus_status)
    then show ?thesis
      by (simp add: SetTransferStatus_fold_failed)
  next
    case False
    with Cons.prems have "failed \<in> set calls" by auto
    then show ?thesis by (simp add: Cons.IH)
  qed
qed

text \<open>
  Claim C1. One call of \<open>SetTransferStatus\<close> keeps the stored status when it equals
  Failed and stores the new status otherwise; hence in every finite sequence of calls
  on one record, as soon as one call sets Failed (the calls \<open>before\<close> it and the
  calls \<open>after\<close> it being arbitrary), the status read after the whole sequence is
  Failed.
\<close>

theorem C1_failed_is_sticky:
  "TransferStatus (SetTransferStatus failed newStatus jppt) =
     (if TransferStatus jppt = failed then TransferStatus jppt else newStatus)
   \<and> TransferStatus (fold (SetTransferStatus failed) (before @ failed # after) jppt) = failed"
proof
  show "TransferStatus (SetTransferStatus failed newStatus jppt) =
     (if TransferStatus jppt = failed then TransferStatus jppt else newStatus)"
    unfolding TransferStatus_def by (rule SetTransferStatus_status)
next
  have "failed \<in> set (before @ failed # after)" by simp
  then show "TransferStatus (fold (SetTransferStatus failed) (before @ failed # after) jppt) = failed"
    unfolding TransferStatus_def by (rule SetTransferStatus_fold_sticky)
qed

subsection \<open>Record addresses\<close>

lemma unat_lt_2p32: "unat (i::32 word) < 2^32"
  using unsigned_less[of i, where 'a=nat] by simp

lemma unat_ucast_32_64: "unat (ucast (i::32 word) :: 64 word) = unat i"
proof -
  have "unat i < 2^64" using unat_lt_2p32[of i] by simp
  then show ?thesis by (simp add: unsigned_ucast_eq take_bit_nat_eq_self)
qed

lemma rec_offset_unat:
  fixes rs k :: "64 word" and i :: "32 word"
  assumes "unat rs \<le> 2^32" "k < rs"
  shows "unat (rs * ucast i + k) = unat rs * unat i + unat k"
proof -
  have i: "unat i < 2^32" by (rule unat_lt_2p32)
  have k: "unat k < unat rs" using assms(2) by (simp add: word_less_nat_alt)
  have "unat rs * unat i + unat k < unat rs * (unat i + 1)" using k by simp
  also have "\<dots> \<le> unat rs * 2^32" using i by (intro mult_le_mono2) simp
  also have "\<dots> \<le> 2^32 * 2^32" using assms(1) by simp
  finally have lt: "unat rs * unat i + unat k < 2^64" by simp
  then have m: "unat rs * unat (ucast i :: 64 word) < 2^LENGTH(64)"
    by (simp add: unat_ucast_32_64)
  have um: "unat (rs * ucast i) = unat rs * unat i"
    using m unat_mult_lem[of rs "ucast i :: 64 word"] by (simp add: unat_ucast_32_64)
  have "unat (rs * ucast i) + unat k < 2^LENGTH(64)" using lt um by simp
  then have "unat (rs * ucast i + k) = unat (rs * ucast i) + unat k"
    using unat_add_lem[of "rs * ucast i" k] by simp
  then show ?thesis using um by simp
qed

lemma rec_ranges_disjoint:
  fixes rs base :: "64 word" and i j :: "32 word"
  assumes "unat rs \<le> 2^32" "i \<noteq> j"
  shows "byte_range (base + rs * ucast i) rs \<inter> byte_range (base + rs * ucast j) rs = {}"
proof (rule ccontr)
  assume "\<not> ?thesis"
  then obtain k k' where k: "k < rs" "k' < rs"
    and eq: "base + rs * ucast i + k = base + rs * ucast j + k'"
    by (auto simp: byte_range_def)
  from eq have "rs * ucast i + k = rs * ucast j + k'"
    by (simp add: add.assoc)
  then have "unat (rs * ucast i + k) = unat (rs * ucast j + k')" by simp
  then have e: "unat rs * unat i + unat k = unat rs * unat j + unat k'"
    using k assms(1) by (simp add: rec_offset_unat)
  have kk: "unat k < unat rs" "unat k' < unat rs" using k by (simp_all add: word_less_nat_alt)
  have "(unat rs * unat i + unat k) div unat rs = (unat rs * unat j + unat k') div unat rs"
    using e by simp
  then have "unat i = unat j" using kk by simp
  then show False using assms(2) by (simp add: word_unat_eq_iff)
qed

lemma Transfer_fails_iff:
  "isl (Transfer hdrSize recSize jpphAddr jpph idx) \<longleftrightarrow> NumTransfers jpph \<le> idx"
  by (simp add: Transfer_def)

lemma Transfer_error:
  "NumTransfers jpph \<le> idx \<Longrightarrow>
   Transfer hdrSize recSize jpphAddr jpph idx = Inl TransferIndexOutOfRange"
  by (simp add: Transfer_def)

lemma Transfer_address:
  "idx < NumTransfers jpph \<Longrightarrow>
   Transfer hdrSize recSize jpphAddr jpph idx = Inr (jpphAddr + hdrSize + recSize * ucast idx)"
  by (simp add: Transfer_def not_le)

text \<open>
  Claim C8. \<open>Transfer\<close> fails, with the out-of-range error, exactly when
  \<open>index >= NumTransfers\<close>; for \<open>index < NumTransfers\<close> it returns the address
  \<open>header address + headerSize + index * recordSize\<close>; and the \<open>recordSize\<close> bytes
  of the records of two different indices below \<open>NumTransfers\<close> share no address.
  \<open>recordSize\<close> is \<open>unsafe.Sizeof(JobPartPlanTransfer{})\<close>, a few dozen bytes:
  the hypothesis \<open>recordSize \<le> 2^32\<close> keeps \<open>index * recordSize\<close> below \<open>2^64\<close>,
  where the \<open>uintptr\<close> product would wrap.
\<close>

theorem C8_transfer_index_and_address:
  assumes "unat recSize \<le> 2^32"
  shows "(isl (Transfer hdrSize recSize jpphAddr jpph idx) \<longleftrightarrow> NumTransfers jpph \<le> idx)
    \<and> (NumTransfers jpph \<le> idx \<longrightarrow>
         Transfer hdrSize recSize jpphAddr jpph idx = Inl TransferIndexOutOfRange)
    \<and> (idx < NumTransfers jpph \<longrightarrow>
         Transfer hdrSize recSize jpphAddr jpph idx
           = Inr (jpphAddr + hdrSize + recSize * ucast idx))
    \<and> (i < NumTransfers jpph \<and> j < NumTransfers jpph \<and> i \<noteq> j \<longrightarrow>
         (\<exists>p q. Transfer hdrSize recSize jpphAddr jpph i = Inr p
              \<and> Transfer hdrSize recSize jpphAddr jpph j = Inr q
              \<and> byte_range p recSize \<inter> byte_range q recSize = {}))"
proof (intro conjI impI)
  show "isl (Transfer hdrSize recSize jpphAddr jpph idx) \<longleftrightarrow> NumTransfers jpph \<le> idx"
    by (rule Transfer_fails_iff)
next
  assume "NumTransfers jpph \<le> idx"
  then show "Transfer hdrSize recSize jpphAddr jpph idx = Inl TransferIndexOutOfRange"
    by (rule Transfer_error)
next
  assume "idx < NumTransfers jpph"
  then show "Transfer hdrSize recSize jpphAddr jpph idx
           = Inr (jpphAddr + hdrSize + recSize * ucast idx)"
    by (rule Transfer_address)
next
  assume ij: "i < NumTransfers jpph \<and> j < NumTransfers jpph \<and> i \<noteq> j"
  have "byte_range (jpphAddr + hdrSize + recSize * ucast i) recSize
        \<inter> byte_range (jpphAddr + hdrSize + recSize * ucast j) recSize = {}"
    using assms ij by (intro rec_ranges_disjoint) simp_all
  then show "\<exists>p q. Transfer hdrSize recSize jpphAddr jpph i = Inr p
              \<and> Transfer hdrSize recSize jpphAddr jpph j = Inr q
              \<and> byte_range p recSize \<inter> byte_range q recSize = {}"
    using ij by (simp add: Transfer_address)
qed

text \<open>
  The theorem at a part of three transfers with 48-byte records after a 1600-byte
  header mapped at \<open>0x10000\<close>: index 3 is refused, and the records 0 and 2 are at
  \<open>0x10640\<close> and \<open>0x106A0\<close> and do not overlap.
\<close>

theorem C8_transfer_index_and_address_witness:
  "unat (48 :: uintptr) \<le> 2^32
   \<and> Transfer 1600 48 0x10000 \<lparr>NumTransfers = 3, atomicJobStatus = 0\<rparr> 3
       = Inl TransferIndexOutOfRange
   \<and> Transfer 1600 48 0x10000 \<lparr>NumTransfers = 3, atomicJobStatus = 0\<rparr> 0 = Inr 0x10640
   \<and> Transfer 1600 48 0x10000 \<lparr>NumTransfers = 3, atomicJobStatus = 0\<rparr> 2 = Inr 0x106A0
   \<and> byte_range 0x10640 48 \<inter> byte_range 0x106A0 48 = {}"
proof -
  have h: "unat (48 :: uintptr) \<le> 2^32" by simp
  note t = C8_transfer_index_and_address [OF h, of 1600 "0x10000"
      "\<lparr>NumTransfers = 3, atomicJobStatus = 0\<rparr>"]
  have a: "Transfer 1600 48 0x10000 \<lparr>NumTransfers = 3, atomicJobStatus = 0\<rparr> 3
       = Inl TransferIndexOutOfRange"
    using t [of 3 0 0] by simp
  have b: "Transfer 1600 48 0x10000 \<lparr>NumTransfers = 3, atomicJobStatus = 0\<rparr> 0 = Inr 0x10640"
    using t [of 0 0 0] by simp
  have c: "Transfer 1600 48 0x10000 \<lparr>NumTransfers = 3, atomicJobStatus = 0\<rparr> 2 = Inr 0x106A0"
    using t [of 2 0 0] by simp
  have d: "byte_range 0x10640 48 \<inter> byte_range 0x106A0 48 = {}"
    using t [of 0 0 2] b c by simp
  show ?thesis using h a b c d by simp
qed

subsection \<open>Strings of a transfer\<close>

lemma read_bytes_Some_iff:
  "read_bytes mem a n = Some bs \<longleftrightarrow>
     length bs = n \<and> (\<forall>k<n. bytes mem (a + of_nat k) = Some (bs ! k))"
proof (induction n arbitrary: a bs)
  case 0
  then show ?case by auto
next
  case (Suc n)
  show ?case
  proof (cases bs)
    case Nil
    then show ?thesis by (auto split: option.splits)
  next
    case (Cons b bs')
    have "(\<forall>k<Suc n. bytes mem (a + of_nat k) = Some ((b # bs') ! k)) \<longleftrightarrow>
          bytes mem a = Some b \<and> (\<forall>k<n. bytes mem (a + 1 + of_nat k) = Some (bs' ! k))"
      (is "?L \<longleftrightarrow> ?R")
    proof
      assume l: ?L
      have "bytes mem a = Some b" using l[rule_format, of 0] by simp
      moreover have "\<forall>k<n. bytes mem (a + 1 + of_nat k) = Some (bs' ! k)"
      proof (intro allI impI)
        fix k assume "k < n"
        then show "bytes mem (a + 1 + of_nat k) = Some (bs' ! k)"
          using l[rule_format, of "Suc k"] by (simp add: add.assoc)
      qed
      ultimately show ?R by simp
    next
      assume r: ?R
      show ?L
      proof (intro allI impI)
        fix k assume k: "k < Suc n"
        show "bytes mem (a + of_nat k) = Some ((b # bs') ! k)"
        proof (cases k)
          case 0
          then show ?thesis using r by simp
        next
          case (Suc k')
          then have "k' < n" using k by simp
          then have "bytes mem (a + 1 + of_nat k') = Some (bs' ! k')" using r by simp
          then show ?thesis using Suc by (simp add: add.assoc)
        qed
      qed
    qed
    then show ?thesis
      using Cons Suc.IH[of "a + 1" bs'] by (auto split: option.splits)
  qed
qed

lemma slice_to_string_Inr_iff:
  "slice_to_string mem data len = Inr bs \<longleftrightarrow>
     0 \<le> len \<and> length bs = nat len
     \<and> (\<forall>k<length bs. bytes mem (data + of_nat k) = Some (bs ! k))"
proof (cases "len < 0")
  case True
  then show ?thesis by (simp add: slice_to_string_def)
next
  case False
  have "slice_to_string mem data len = Inr bs \<longleftrightarrow> read_bytes mem data (nat len) = Some bs"
    using False by (simp add: slice_to_string_def split: option.splits)
  also have "\<dots> \<longleftrightarrow> length bs = nat len
     \<and> (\<forall>k<nat len. bytes mem (data + of_nat k) = Some (bs ! k))"
    by (rule read_bytes_Some_iff)
  also have "\<dots> \<longleftrightarrow> 0 \<le> len \<and> length bs = nat len
     \<and> (\<forall>k<length bs. bytes mem (data + of_nat k) = Some (bs ! k))"
    using False by (cases "length bs = nat len") simp_all
  finally show ?thesis .
qed

lemma scast_nonneg_length:
  fixes w :: "16 word"
  assumes "0 \<le> sint w"
  shows "(scast w :: 64 word) = of_nat (nat (sint w))"
proof -
  have i: "int (nat (sint w)) = sint w" using assms by simp
  have "(of_nat (nat (sint w)) :: 64 word) = of_int (int (nat (sint w)))"
    by (simp only: of_int_of_nat_eq)
  also have "\<dots> = of_int (sint w)" by (simp only: i)
  also have "\<dots> = scast w" by (rule scast_eq [symmetric])
  finally show ?thesis by (rule sym)
qed

lemma TransferSrcDstStrings_found:
  assumes "headers mem jpphAddr = Some jpph"
    and "transferIndex < NumTransfers jpph"
    and "transfers mem (jpphAddr + hdrSize + recSize * ucast transferIndex) = Some jppt"
  shows "TransferSrcDstStrings hdrSize recSize mem jpphAddr transferIndex =
     (case slice_to_string mem (jpphAddr + SrcOffset jppt) (sint (SrcLength jppt)) of
        Inl e \<Rightarrow> Inl e
      | Inr source \<Rightarrow>
         (case slice_to_string mem (jpphAddr + SrcOffset jppt + scast (SrcLength jppt))
                 (sint (DstLength jppt)) of
            Inl e \<Rightarrow> Inl e
          | Inr destination \<Rightarrow> Inr (source, destination)))"
proof -
  have "\<not> NumTransfers jpph \<le> transferIndex" using assms(2) by (simp add: not_le)
  then show ?thesis using assms(1,3) by (simp add: TransferSrcDstStrings_def Transfer_def)
qed

lemma iff_regroup:
  assumes "R \<longleftrightarrow> A \<and> B"
    and "A \<longleftrightarrow> a1 \<and> a2 \<and> a3"
    and "B \<longleftrightarrow> b1 \<and> b2 \<and> b3'"
    and "a1 \<and> a2 \<Longrightarrow> b3' \<longleftrightarrow> b3"
  shows "R \<longleftrightarrow> a1 \<and> b1 \<and> a2 \<and> b2 \<and> a3 \<and> b3"
  using assms by blast

lemma TransferSrcDstStrings_Inr_iff:
  assumes hdr: "headers mem jpphAddr = Some jpph"
    and idx: "transferIndex < NumTransfers jpph"
    and rec: "transfers mem (jpphAddr + hdrSize + recSize * ucast transferIndex) = Some jppt"
  shows "TransferSrcDstStrings hdrSize recSize mem jpphAddr transferIndex = Inr (source, destination)
           \<longleftrightarrow> 0 \<le> sint (SrcLength jppt) \<and> 0 \<le> sint (DstLength jppt)
             \<and> length source = nat (sint (SrcLength jppt))
             \<and> length destination = nat (sint (DstLength jppt))
             \<and> (\<forall>k<length source.
                   bytes mem (jpphAddr + SrcOffset jppt + of_nat k) = Some (source ! k))
             \<and> (\<forall>k<length destination.
                   bytes mem (jpphAddr + SrcOffset jppt + of_nat (length source) + of_nat k)
                     = Some (destination ! k))"
proof (rule iff_regroup)
  let ?src = "slice_to_string mem (jpphAddr + SrcOffset jppt) (sint (SrcLength jppt))"
  let ?dst = "slice_to_string mem (jpphAddr + SrcOffset jppt + scast (SrcLength jppt))
                 (sint (DstLength jppt))"
  note eq = TransferSrcDstStrings_found [OF hdr idx rec]
  show "TransferSrcDstStrings hdrSize recSize mem jpphAddr transferIndex = Inr (source, destination)
        \<longleftrightarrow> ?src = Inr source \<and> ?dst = Inr destination"
    unfolding eq by (cases ?src; cases ?dst) simp_all
  show "?src = Inr source \<longleftrightarrow> 0 \<le> sint (SrcLength jppt)
          \<and> length source = nat (sint (SrcLength jppt))
          \<and> (\<forall>k<length source.
                   bytes mem (jpphAddr + SrcOffset jppt + of_nat k) = Some (source ! k))"
    by (rule slice_to_string_Inr_iff)
  show "?dst = Inr destination \<longleftrightarrow> 0 \<le> sint (DstLength jppt)
          \<and> length destination = nat (sint (DstLength jppt))
          \<and> (\<forall>k<length destination.
                   bytes mem (jpphAddr + SrcOffset jppt + scast (SrcLength jppt) + of_nat k)
                     = Some (destination ! k))"
    by (rule slice_to_string_Inr_iff)
  assume a: "0 \<le> sint (SrcLength jppt) \<and> length source = nat (sint (SrcLength jppt))"
  then have "(scast (SrcLength jppt) :: 64 word) = of_nat (length source)"
    using scast_nonneg_length [of "SrcLength jppt"] by (simp only:)
  then show "(\<forall>k<length destination.
                   bytes mem (jpphAddr + SrcOffset jppt + scast (SrcLength jppt) + of_nat k)
                     = Some (destination ! k))
      \<longleftrightarrow> (\<forall>k<length destination.
                   bytes mem (jpphAddr + SrcOffset jppt + of_nat (length source) + of_nat k)
                     = Some (destination ! k))"
    by (simp only:)
qed

text \<open>
  Claim C4, as amended. Let the header at \<open>jpphAddr\<close> be readable. For
  \<open>index >= NumTransfers\<close> the function fails with the out-of-range error. For
  \<open>index < NumTransfers\<close>, with the record of that index readable, it returns
  \<open>(source, destination)\<close> exactly when both lengths are non-negative, \<open>source\<close>
  is the \<open>SrcLength\<close> bytes mapped at \<open>jpphAddr + SrcOffset\<close> and \<open>destination\<close>
  is the \<open>DstLength\<close> bytes mapped immediately after them, at
  \<open>jpphAddr + SrcOffset + SrcLength\<close>. The bounds of the mapped region do not occur:
  a range that leaves the region but lies in mapped memory is read and returned.
\<close>

theorem C4_src_dst_strings:
  assumes hdr: "headers mem jpphAddr = Some jpph"
  shows "(NumTransfers jpph \<le> transferIndex \<longrightarrow>
            TransferSrcDstStrings hdrSize recSize mem jpphAddr transferIndex
              = Inl TransferIndexOutOfRange)
    \<and> (transferIndex < NumTransfers jpph
        \<and> transfers mem (jpphAddr + hdrSize + recSize * ucast transferIndex) = Some jppt \<longrightarrow>
          (TransferSrcDstStrings hdrSize recSize mem jpphAddr transferIndex = Inr (source, destination)
           \<longleftrightarrow> 0 \<le> sint (SrcLength jppt) \<and> 0 \<le> sint (DstLength jppt)
             \<and> length source = nat (sint (SrcLength jppt))
             \<and> length destination = nat (sint (DstLength jppt))
             \<and> (\<forall>k<length source.
                   bytes mem (jpphAddr + SrcOffset jppt + of_nat k) = Some (source ! k))
             \<and> (\<forall>k<length destination.
                   bytes mem (jpphAddr + SrcOffset jppt + of_nat (length source) + of_nat k)
                     = Some (destination ! k))))"
proof (intro conjI impI)
  assume "NumTransfers jpph \<le> transferIndex"
  then show "TransferSrcDstStrings hdrSize recSize mem jpphAddr transferIndex
              = Inl TransferIndexOutOfRange"
    using hdr by (simp add: TransferSrcDstStrings_def Transfer_def)
next
  assume a: "transferIndex < NumTransfers jpph
        \<and> transfers mem (jpphAddr + hdrSize + recSize * ucast transferIndex) = Some jppt"
  show "TransferSrcDstStrings hdrSize recSize mem jpphAddr transferIndex = Inr (source, destination)
           \<longleftrightarrow> 0 \<le> sint (SrcLength jppt) \<and> 0 \<le> sint (DstLength jppt)
             \<and> length source = nat (sint (SrcLength jppt))
             \<and> length destination = nat (sint (DstLength jppt))
             \<and> (\<forall>k<length source.
                   bytes mem (jpphAddr + SrcOffset jppt + of_nat k) = Some (source ! k))
             \<and> (\<forall>k<length destination.
                   bytes mem (jpphAddr + SrcOffset jppt + of_nat (length source) + of_nat k)
                     = Some (destination ! k))"
    by (rule TransferSrcDstStrings_Inr_iff [OF hdr conjunct1 [OF a] conjunct2 [OF a]])
qed


lemma page_memory_strings_4:
  "TransferSrcDstStrings 1600 48 (page_memory 4) 0x10000 0
     = Inr ([0x61, 0x62, 0x63, 0x64], [0x65, 0x66, 0x67, 0x68])"
  by code_simp

text \<open>
  Claim C4 as stated fails. The plan file of \<open>page_memory 8\<close> is 1656 bytes long;
  its record announces a destination of 8 bytes at offset 1652, four bytes more
  than the region holds. \<open>TransferSrcDstStrings\<close> does not fail: it returns the
  destination with the four bytes that follow the region in the page.
\<close>

theorem C4_reads_outside_region:
  "\<not> range_within_region 0x10000 1656 (0x10000 + 1648 + 4) 8
   \<and> TransferSrcDstStrings 1600 48 (page_memory 8) 0x10000 0
       = Inr ([0x61, 0x62, 0x63, 0x64], [0x65, 0x66, 0x67, 0x68, 0, 0, 0, 0])"
proof
  show "\<not> range_within_region 0x10000 1656 (0x10000 + 1648 + 4) 8"
    by (simp add: range_within_region_def)
  show "TransferSrcDstStrings 1600 48 (page_memory 8) 0x10000 0
       = Inr ([0x61, 0x62, 0x63, 0x64], [0x65, 0x66, 0x67, 0x68, 0, 0, 0, 0])"
    by code_simp
qed

text \<open>
  The theorem at the plan file of \<open>page_memory 4\<close>, whose strings fill the blob:
  index 1 is refused, index 0 yields \<open>abcd\<close> and \<open>efgh\<close>, read at offsets 1648
  and 1652.
\<close>

theorem C4_src_dst_strings_witness:
  "headers (page_memory 4) 0x10000 = Some \<lparr>NumTransfers = 1, atomicJobStatus = 0\<rparr>
   \<and> TransferSrcDstStrings 1600 48 (page_memory 4) 0x10000 1 = Inl TransferIndexOutOfRange
   \<and> TransferSrcDstStrings 1600 48 (page_memory 4) 0x10000 0
       = Inr ([0x61, 0x62, 0x63, 0x64], [0x65, 0x66, 0x67, 0x68])
   \<and> bytes (page_memory 4) (0x10000 + 1648 + 0) = Some 0x61
   \<and> bytes (page_memory 4) (0x10000 + 1648 + 4 + 3) = Some 0x68"
proof -
  let ?h = "\<lparr>NumTransfers = 1, atomicJobStatus = 0\<rparr>"
  let ?t = "\<lparr>SrcOffset = 1648, SrcLength = 4, DstLength = 4,
            ModifiedTime = 0, SourceSize = 0, CompletionTime = 0,
            atomicTransferStatus = 0\<rparr>"
  let ?s = "[0x61, 0x62, 0x63, 0x64] :: byte list"
  let ?d = "[0x65, 0x66, 0x67, 0x68] :: byte list"
  have h: "headers (page_memory 4) 0x10000 = Some ?h"
    by (simp add: page_memory_def)
  have t: "(0 :: 32 word) < NumTransfers ?h
      \<and> transfers (page_memory 4) (0x10000 + 1600 + 48 * ucast (0 :: 32 word)) = Some ?t"
    by (simp add: page_memory_def)
  have oob: "TransferSrcDstStrings 1600 48 (page_memory 4) 0x10000 1 = Inl TransferIndexOutOfRange"
    using C4_src_dst_strings [OF h, of 1 1600 48] by simp
  have r: "(\<forall>k<length ?s. bytes (page_memory 4) (0x10000 + SrcOffset ?t + of_nat k) = Some (?s ! k))
         \<and> (\<forall>k<length ?d. bytes (page_memory 4)
                 (0x10000 + SrcOffset ?t + of_nat (length ?s) + of_nat k) = Some (?d ! k))"
    using C4_src_dst_strings [OF h, of 0 1600 48 ?t ?s ?d] t page_memory_strings_4 by blast
  have b0: "bytes (page_memory 4) (0x10000 + 1648 + 0) = Some 0x61"
    using conjunct1 [OF r, rule_format, of 0] by simp
  have b3: "bytes (page_memory 4) (0x10000 + 1648 + 4 + 3) = Some 0x68"
    using conjunct2 [OF r, rule_format, of 3] by simp
  show ?thesis using h oob page_memory_strings_4 b0 b3 by blast
qed

subsection \<open>The status manager\<close>

lemma SMUpdateJobpartCreated_Some:
  "SMUpdateJobpartCreated msg (Some js) = (None, Some (SendJobPartCreatedMsg msg js))"
  by (simp add: SMUpdateJobpartCreated_def SendJobPartCreatedMsg_def)

lemma SMUpdateXferDone_Some:
  "SMUpdateXferDone msg (Some js) = (None, Some (SendXferDoneMsg msg js))"
  by (simp add: SMUpdateXferDone_def SendXferDoneMsg_def)

lemma sm_apply_part_created_Some:
  "sm_apply_part_created msgs (Some js) = Some (apply_part_created msgs js)"
  unfolding sm_apply_part_created_def apply_part_created_def
  by (induction msgs arbitrary: js) (simp_all add: SMUpdateJobpartCreated_Some)

lemma sm_apply_xfer_done_Some:
  "sm_apply_xfer_done msgs (Some js) = Some (apply_xfer_done msgs js)"
  unfolding sm_apply_xfer_done_def apply_xfer_done_def
  by (induction msgs arbitrary: js) (simp_all add: SMUpdateXferDone_Some)

lemma apply_part_created_flag:
  "CompleteJobOrdered (apply_part_created msgs js)
     = (CompleteJobOrdered js \<or> (\<exists>m \<in> set msgs. isFinalPart m))"
  unfolding apply_part_created_def
  by (induction msgs arbitrary: js) (auto simp: SendJobPartCreatedMsg_def)

lemma apply_part_created_total:
  "TotalTransfers (apply_part_created msgs js)
     = TotalTransfers js + sum_list (map totalTransfers msgs)"
  unfolding apply_part_created_def
  by (induction msgs arbitrary: js) (simp_all add: SendJobPartCreatedMsg_def add.assoc)

lemma apply_part_created_enumerated:
  "TotalBytesEnumerated (apply_part_created msgs js)
     = TotalBytesEnumerated js + sum_list (map totalBytesEnumerated msgs)"
  unfolding apply_part_created_def
  by (induction msgs arbitrary: js) (simp_all add: SendJobPartCreatedMsg_def add.assoc)

lemma apply_part_created_expected:
  "TotalBytesExpected (apply_part_created msgs js)
     = TotalBytesExpected js + sum_list (map totalBytesEnumerated msgs)"
  unfolding apply_part_created_def
  by (induction msgs arbitrary: js) (simp_all add: SendJobPartCreatedMsg_def add.assoc)

lemma apply_xfer_done_completed:
  "TransfersCompleted (apply_xfer_done msgs js)
     = TransfersCompleted js + sum_list (map completed_inc msgs)"
  unfolding apply_xfer_done_def
  by (induction msgs arbitrary: js) (simp_all add: SendXferDoneMsg_def completed_inc_def add.assoc)

lemma apply_xfer_done_bytes:
  "TotalBytesTransferred (apply_xfer_done msgs js)
     = TotalBytesTransferred js + sum_list (map bytes_inc msgs)"
  unfolding apply_xfer_done_def
  by (induction msgs arbitrary: js) (simp_all add: SendXferDoneMsg_def bytes_inc_def add.assoc)

lemma apply_xfer_done_failed_list:
  "FailedTransfers (apply_xfer_done msgs js) = FailedTransfers js @ filter is_failure msgs"
  unfolding apply_xfer_done_def
  by (induction msgs arbitrary: js) (simp_all add: SendXferDoneMsg_def is_failure_def)

lemma apply_xfer_done_skipped_list:
  "SkippedTransfers (apply_xfer_done msgs js) = SkippedTransfers js @ filter is_skip msgs"
  unfolding apply_xfer_done_def
  by (induction msgs arbitrary: js) (simp_all add: SendXferDoneMsg_def is_skip_def)

lemma apply_xfer_done_failed:
  "TransfersFailed (apply_xfer_done msgs js)
     = TransfersFailed js + of_nat (length (filter is_failure msgs))"
  unfolding apply_xfer_done_def
  by (induction msgs arbitrary: js) (simp_all add: SendXferDoneMsg_def is_failure_def add.assoc)

lemma apply_xfer_done_skipped:
  "TransfersSkipped (apply_xfer_done msgs js)
     = TransfersSkipped js + of_nat (length (filter is_skip msgs))"
  unfolding apply_xfer_done_def
  by (induction msgs arbitrary: js) (simp_all add: SendXferDoneMsg_def is_skip_def add.assoc)

lemma sum_list_map_mset_cong:
  fixes f :: "'a \<Rightarrow> 'b::comm_monoid_add"
  assumes "mset xs = mset ys"
  shows "sum_list (map f xs) = sum_list (map f ys)"
proof -
  have "sum_list (map f xs) = sum_mset (image_mset f (mset xs))"
    by (simp flip: sum_mset_sum_list)
  also have "\<dots> = sum_mset (image_mset f (mset ys))" using assms by simp
  also have "\<dots> = sum_list (map f ys)" by (simp flip: sum_mset_sum_list)
  finally show ?thesis .
qed

lemma mset_filter_perm:
  assumes "mset xs = mset ys"
  shows "mset (filter P xs) = mset (filter P ys)"
  using assms by (simp add: mset_filter)

lemma length_filter_perm:
  assumes "mset xs = mset ys"
  shows "length (filter P xs) = length (filter P ys)"
  using mset_filter_perm [OF assms, of P] by (metis size_mset)

lemma set_filter_perm:
  assumes "mset xs = mset ys"
  shows "set (filter P xs) = set (filter P ys)"
  using mset_filter_perm [OF assms, of P] by (metis set_mset_mset)

text \<open>
  Claim C9. Two sequences of outcomes that are orderings of one multiset, applied
  to the same summary, end with the same \<open>TransfersCompleted\<close>,
  \<open>TransfersFailed\<close>, \<open>TransfersSkipped\<close> and \<open>TotalBytesTransferred\<close>, and with
  failure and skip lists that are equal as sets (and even as multisets). This holds
  for \<open>SendXferDoneMsg\<close> and, a summary being installed, for \<open>SMUpdateXferDone\<close>,
  which computes the same summaries.
\<close>

theorem C9_order_independent:
  assumes "mset xs = mset ys"
  shows "TransfersCompleted (apply_xfer_done xs js) = TransfersCompleted (apply_xfer_done ys js)
    \<and> TransfersFailed (apply_xfer_done xs js) = TransfersFailed (apply_xfer_done ys js)
    \<and> TransfersSkipped (apply_xfer_done xs js) = TransfersSkipped (apply_xfer_done ys js)
    \<and> TotalBytesTransferred (apply_xfer_done xs js) = TotalBytesTransferred (apply_xfer_done ys js)
    \<and> set (FailedTransfers (apply_xfer_done xs js)) = set (FailedTransfers (apply_xfer_done ys js))
    \<and> set (SkippedTransfers (apply_xfer_done xs js)) = set (SkippedTransfers (apply_xfer_done ys js))
    \<and> mset (FailedTransfers (apply_xfer_done xs js)) = mset (FailedTransfers (apply_xfer_done ys js))
    \<and> mset (SkippedTransfers (apply_xfer_done xs js)) = mset (SkippedTransfers (apply_xfer_done ys js))
    \<and> sm_apply_xfer_done xs (Some js) = Some (apply_xfer_done xs js)
    \<and> sm_apply_xfer_done ys (Some js) = Some (apply_xfer_done ys js)"
proof (intro conjI)
  show "TransfersCompleted (apply_xfer_done xs js) = TransfersCompleted (apply_xfer_done ys js)"
    by (simp add: apply_xfer_done_completed sum_list_map_mset_cong [OF assms])
  show "TransfersFailed (apply_xfer_done xs js) = TransfersFailed (apply_xfer_done ys js)"
    by (simp add: apply_xfer_done_failed length_filter_perm [OF assms])
  show "TransfersSkipped (apply_xfer_done xs js) = TransfersSkipped (apply_xfer_done ys js)"
    by (simp add: apply_xfer_done_skipped length_filter_perm [OF assms])
  show "TotalBytesTransferred (apply_xfer_done xs js) = TotalBytesTransferred (apply_xfer_done ys js)"
    by (simp add: apply_xfer_done_bytes sum_list_map_mset_cong [OF assms])
  show "set (FailedTransfers (apply_xfer_done xs js)) = set (FailedTransfers (apply_xfer_done ys js))"
    by (simp only: apply_xfer_done_failed_list set_append set_filter_perm [OF assms])
  show "set (SkippedTransfers (apply_xfer_done xs js)) = set (SkippedTransfers (apply_xfer_done ys js))"
    by (simp only: apply_xfer_done_skipped_list set_append set_filter_perm [OF assms])
  show "mset (FailedTransfers (apply_xfer_done xs js)) = mset (FailedTransfers (apply_xfer_done ys js))"
    by (simp only: apply_xfer_done_failed_list mset_append mset_filter_perm [OF assms])
  show "mset (SkippedTransfers (apply_xfer_done xs js)) = mset (SkippedTransfers (apply_xfer_done ys js))"
    by (simp only: apply_xfer_done_skipped_list mset_append mset_filter_perm [OF assms])
  show "sm_apply_xfer_done xs (Some js) = Some (apply_xfer_done xs js)"
    by (rule sm_apply_xfer_done_Some)
  show "sm_apply_xfer_done ys (Some js) = Some (apply_xfer_done ys js)"
    by (rule sm_apply_xfer_done_Some)
qed

lemma example_outcomes_perm:
  "mset [outcome Success 1024, outcome BlobTierFailure 7, outcome SkippedBlobHasSnapshots 9]
     = mset [outcome SkippedBlobHasSnapshots 9, outcome Success 1024, outcome BlobTierFailure 7]"
  by (simp add: add_mset_commute)

lemma example_outcomes_summary:
  "apply_xfer_done
     [outcome Success 1024, outcome BlobTierFailure 7, outcome SkippedBlobHasSnapshots 9]
     zero_summary
   = zero_summary\<lparr>TransfersCompleted := 1, TransfersFailed := 1, TransfersSkipped := 1,
         TotalBytesTransferred := 1024,
         FailedTransfers := [outcome BlobTierFailure 7],
         SkippedTransfers := [outcome SkippedBlobHasSnapshots 9]\<rparr>"
  by (simp add: apply_xfer_done_def SendXferDoneMsg_def outcome_def zero_summary_def)

text \<open>
  The theorem at three outcomes (a success of 1024 bytes, a blob-tier failure, a
  skip) and a rotation of them, applied to the fresh summary.
\<close>

theorem C9_order_independent_witness:
  "mset [outcome Success 1024, outcome BlobTierFailure 7, outcome SkippedBlobHasSnapshots 9]
     = mset [outcome SkippedBlobHasSnapshots 9, outcome Success 1024, outcome BlobTierFailure 7]
   \<and> TransfersCompleted (apply_xfer_done
        [outcome SkippedBlobHasSnapshots 9, outcome Success 1024, outcome BlobTierFailure 7]
        zero_summary) = 1
   \<and> TotalBytesTransferred (apply_xfer_done
        [outcome SkippedBlobHasSnapshots 9, outcome Success 1024, outcome BlobTierFailure 7]
        zero_summary) = 1024
   \<and> TransfersFailed (apply_xfer_done
        [outcome SkippedBlobHasSnapshots 9, outcome Success 1024, outcome BlobTierFailure 7]
        zero_summary) = 1
   \<and> TransfersSkipped (apply_xfer_done
        [outcome SkippedBlobHasSnapshots 9, outcome Success 1024, outcome BlobTierFailure 7]
        zero_summary) = 1
   \<and> set (FailedTransfers (apply_xfer_done
        [outcome SkippedBlobHasSnapshots 9, outcome Success 1024, outcome BlobTierFailure 7]
        zero_summary)) = {outcome BlobTierFailure 7}"
proof -
  let ?xs = "[outcome Success 1024, outcome BlobTierFailure 7, outcome SkippedBlobHasSnapshots 9]"
  let ?ys = "[outcome SkippedBlobHasSnapshots 9, outcome Success 1024, outcome BlobTierFailure 7]"
  note t = C9_order_independent [OF example_outcomes_perm, of zero_summary,
      unfolded example_outcomes_summary]
  have c: "TransfersCompleted (apply_xfer_done ?ys zero_summary) = 1"
    using t [THEN conjunct1] by simp
  have f: "TransfersFailed (apply_xfer_done ?ys zero_summary) = 1"
    using t [THEN conjunct2, THEN conjunct1] by simp
  have s: "TransfersSkipped (apply_xfer_done ?ys zero_summary) = 1"
    using t [THEN conjunct2, THEN conjunct2, THEN conjunct1] by simp
  have b: "TotalBytesTransferred (apply_xfer_done ?ys zero_summary) = 1024"
    using t [THEN conjunct2, THEN conjunct2, THEN conjunct2, THEN conjunct1] by simp
  have fl: "set (FailedTransfers (apply_xfer_done ?ys zero_summary)) = {outcome BlobTierFailure 7}"
    using t [THEN conjunct2, THEN conjunct2, THEN conjunct2, THEN conjunct2, THEN conjunct1]
    by simp
  show ?thesis using example_outcomes_perm c b f s fl by blast
qed


subsection \<open>Part-created events\<close>

text \<open>
  Claim C7. One part-created event adds \<open>totalTransfers\<close>, \<open>fileTransfers\<close>,
  \<open>folderTransfer\<close> and \<open>totalBytesEnumerated\<close> to the running totals (in the
  arithmetic of their unsigned types) and sets the fully-enumerated flag
  \<open>CompleteJobOrdered\<close> to its disjunction with \<open>isFinalPart\<close>. After any sequence
  of events the flag is true exactly when it was true before or some event of the
  sequence is final, wherever in the sequence that event stands; in particular a
  true flag stays true. Both variants compute the same summaries. The events
  (150, not final, 1000000 bytes) and (50, final, 500000 bytes) on the fresh summary
  give 200 transfers, a true flag and 1500000 bytes.
\<close>

theorem C7_part_created:
  "TotalTransfers (SendJobPartCreatedMsg msg js) = TotalTransfers js + totalTransfers msg
   \<and> FileTransfers (SendJobPartCreatedMsg msg js) = FileTransfers js + fileTransfers msg
   \<and> FolderPropertyTransfers (SendJobPartCreatedMsg msg js)
       = FolderPropertyTransfers js + folderTransfer msg
   \<and> TotalBytesEnumerated (SendJobPartCreatedMsg msg js)
       = TotalBytesEnumerated js + totalBytesEnumerated msg
   \<and> CompleteJobOrdered (SendJobPartCreatedMsg msg js)
       = (CompleteJobOrdered js \<or> isFinalPart msg)
   \<and> SMUpdateJobpartCreated msg (Some js) = (None, Some (SendJobPartCreatedMsg msg js))
   \<and> CompleteJobOrdered (apply_part_created msgs js)
       = (CompleteJobOrdered js \<or> (\<exists>m \<in> set msgs. isFinalPart m))
   \<and> (CompleteJobOrdered js \<longrightarrow> CompleteJobOrdered (apply_part_created msgs js))
   \<and> sm_apply_part_created msgs (Some js) = Some (apply_part_created msgs js)
   \<and> TotalTransfers (apply_part_created
         [part_created 150 False 1000000, part_created 50 True 500000] zero_summary) = 200
   \<and> CompleteJobOrdered (apply_part_created
         [part_created 150 False 1000000, part_created 50 True 500000] zero_summary)
   \<and> TotalBytesEnumerated (apply_part_created
         [part_created 150 False 1000000, part_created 50 True 500000] zero_summary) = 1500000"
proof (intro conjI)
  show "CompleteJobOrdered (apply_part_created msgs js)
       = (CompleteJobOrdered js \<or> (\<exists>m \<in> set msgs. isFinalPart m))"
    by (rule apply_part_created_flag)
  then show "CompleteJobOrdered js \<longrightarrow> CompleteJobOrdered (apply_part_created msgs js)"
    by simp
  show "SMUpdateJobpartCreated msg (Some js) = (None, Some (SendJobPartCreatedMsg msg js))"
    by (rule SMUpdateJobpartCreated_Some)
  show "sm_apply_part_created msgs (Some js) = Some (apply_part_created msgs js)"
    by (rule sm_apply_part_created_Some)
  show "TotalTransfers (apply_part_created
         [part_created 150 False 1000000, part_created 50 True 500000] zero_summary) = 200"
    by (simp add: apply_part_created_total part_created_def zero_summary_def)
  show "CompleteJobOrdered (apply_part_created
         [part_created 150 False 1000000, part_created 50 True 500000] zero_summary)"
    by (simp add: apply_part_created_flag part_created_def)
  show "TotalBytesEnumerated (apply_part_created
         [part_created 150 False 1000000, part_created 50 True 500000] zero_summary) = 1500000"
    by (simp add: apply_part_created_enumerated part_created_def zero_summary_def)
qed (simp_all add: SendJobPartCreatedMsg_def)

text \<open>
  The theorem at the two events in the other order (the final part first), and at
  a summary whose flag is already true followed by a part that is not final.
\<close>

theorem C7_part_created_witness:
  "(\<exists>m \<in> set [part_created 50 True 500000, part_created 150 False 1000000]. isFinalPart m)
   \<and> CompleteJobOrdered (apply_part_created
         [part_created 50 True 500000, part_created 150 False 1000000] zero_summary)
   \<and> CompleteJobOrdered (zero_summary\<lparr>CompleteJobOrdered := True\<rparr>)
   \<and> CompleteJobOrdered (apply_part_created
         [part_created 150 False 1000000] (zero_summary\<lparr>CompleteJobOrdered := True\<rparr>))"
proof -
  let ?msgs = "[part_created 50 True 500000, part_created 150 False 1000000]"
  have e: "\<exists>m \<in> set ?msgs. isFinalPart m"
    by (simp add: part_created_def)
  note t = C7_part_created [where msgs = ?msgs and js = zero_summary]
  have a: "CompleteJobOrdered (apply_part_created ?msgs zero_summary)"
    using t [THEN conjunct2, THEN conjunct2, THEN conjunct2, THEN conjunct2, THEN conjunct2,
             THEN conjunct2, THEN conjunct1] e
    by (simp only: simp_thms)
  note u = C7_part_created [where msgs = "[part_created 150 False 1000000]"
      and js = "zero_summary\<lparr>CompleteJobOrdered := True\<rparr>"]
  have s: "CompleteJobOrdered (zero_summary\<lparr>CompleteJobOrdered := True\<rparr>)" by simp
  have b: "CompleteJobOrdered (apply_part_created
         [part_created 150 False 1000000] (zero_summary\<lparr>CompleteJobOrdered := True\<rparr>))"
    using u [THEN conjunct2, THEN conjunct2, THEN conjunct2, THEN conjunct2, THEN conjunct2,
             THEN conjunct2, THEN conjunct2, THEN conjunct1] s
    by (rule mp)
  show ?thesis using e a s b by (intro conjI)
qed

text \<open>
  Claim C10. One part-created event adds the same \<open>totalBytesEnumerated\<close> to
  \<open>TotalBytesEnumerated\<close> and to \<open>TotalBytesExpected\<close>; so from a summary in
  which the two counters are equal, they are equal after every sequence of
  part-created events, in both variants.
\<close>

theorem C10_expected_equals_enumerated:
  assumes "TotalBytesExpected js = TotalBytesEnumerated js"
  shows "TotalBytesEnumerated (SendJobPartCreatedMsg msg js)
           = TotalBytesEnumerated js + totalBytesEnumerated msg
    \<and> TotalBytesExpected (SendJobPartCreatedMsg msg js)
           = TotalBytesExpected js + totalBytesEnumerated msg
    \<and> TotalBytesExpected (apply_part_created msgs js)
           = TotalBytesEnumerated (apply_part_created msgs js)
    \<and> sm_apply_part_created msgs (Some js) = Some (apply_part_created msgs js)"
proof (intro conjI)
  show "TotalBytesExpected (apply_part_created msgs js)
           = TotalBytesEnumerated (apply_part_created msgs js)"
    using assms by (simp add: apply_part_created_expected apply_part_created_enumerated)
  show "sm_apply_part_created msgs (Some js) = Some (apply_part_created msgs js)"
    by (rule sm_apply_part_created_Some)
qed (simp_all add: SendJobPartCreatedMsg_def)

text \<open>The theorem at the fresh summary and the two events of the example.\<close>

theorem C10_expected_equals_enumerated_witness:
  "TotalBytesExpected zero_summary = TotalBytesEnumerated zero_summary
   \<and> TotalBytesExpected (apply_part_created
         [part_created 150 False 1000000, part_created 50 True 500000] zero_summary)
       = TotalBytesEnumerated (apply_part_created
         [part_created 150 False 1000000, part_created 50 True 500000] zero_summary)
   \<and> TotalBytesEnumerated (apply_part_created
         [part_created 150 False 1000000, part_created 50 True 500000] zero_summary) = 1500000"
proof -
  have z: "TotalBytesExpected zero_summary = TotalBytesEnumerated zero_summary"
    by (simp add: zero_summary_def)
  have v: "TotalBytesEnumerated (apply_part_created
         [part_created 150 False 1000000, part_created 50 True 500000] zero_summary) = 1500000"
    by (simp add: apply_part_created_enumerated part_created_def zero_summary_def)
  show ?thesis
    using z v C10_expected_equals_enumerated
          [where msgs = "[part_created 150 False 1000000, part_created 50 True 500000]"
             and js = zero_summary, OF z, THEN conjunct2, THEN conjunct2, THEN conjunct1]
    by (intro conjI)
qed


subsection \<open>Transfer outcomes\<close>

text \<open>
  Claim C6. A transfer outcome falls in exactly one bucket. \<open>Success\<close> adds one to
  \<open>TransfersCompleted\<close> and the transfer's size to \<open>TotalBytesTransferred\<close>;
  \<open>Failed\<close>, \<open>TierAvailabilityCheckFailure\<close> and \<open>BlobTierFailure\<close> add one to
  \<open>TransfersFailed\<close> and append the outcome to \<open>FailedTransfers\<close>;
  \<open>SkippedEntityAlreadyExists\<close> and \<open>SkippedBlobHasSnapshots\<close> add one to
  \<open>TransfersSkipped\<close> and append the outcome to \<open>SkippedTransfers\<close>; every other
  status leaves the summary as it is. Nothing else changes in any case, and
  \<open>SMUpdateXferDone\<close> on an installed summary does what \<open>SendXferDoneMsg\<close> does.
\<close>

theorem C6_xfer_done_classification:
  "(xferStatus msg = Success \<longrightarrow>
      SendXferDoneMsg msg js
        = js\<lparr>TransfersCompleted := TransfersCompleted js + 1,
              TotalBytesTransferred := TotalBytesTransferred js + TransferSize msg\<rparr>)
   \<and> (xferStatus msg \<in> {Failed, TierAvailabilityCheckFailure, BlobTierFailure} \<longrightarrow>
      SendXferDoneMsg msg js
        = js\<lparr>TransfersFailed := TransfersFailed js + 1,
              FailedTransfers := FailedTransfers js @ [msg]\<rparr>)
   \<and> (xferStatus msg \<in> {SkippedEntityAlreadyExists, SkippedBlobHasSnapshots} \<longrightarrow>
      SendXferDoneMsg msg js
        = js\<lparr>TransfersSkipped := TransfersSkipped js + 1,
              SkippedTransfers := SkippedTransfers js @ [msg]\<rparr>)
   \<and> (xferStatus msg \<notin> {Success, Failed, TierAvailabilityCheckFailure, BlobTierFailure,
                          SkippedEntityAlreadyExists, SkippedBlobHasSnapshots} \<longrightarrow>
      SendXferDoneMsg msg js = js)
   \<and> SMUpdateXferDone msg (Some js) = (None, Some (SendXferDoneMsg msg js))"
proof (intro conjI impI)
  show "SMUpdateXferDone msg (Some js) = (None, Some (SendXferDoneMsg msg js))"
    by (rule SMUpdateXferDone_Some)
next
  assume "xferStatus msg = Success"
  then show "SendXferDoneMsg msg js
        = js\<lparr>TransfersCompleted := TransfersCompleted js + 1,
              TotalBytesTransferred := TotalBytesTransferred js + TransferSize msg\<rparr>"
    by (simp add: SendXferDoneMsg_def)
next
  assume "xferStatus msg \<in> {Failed, TierAvailabilityCheckFailure, BlobTierFailure}"
  then have "xferStatus msg \<noteq> Success"
    and "xferStatus msg = Failed \<or> xferStatus msg = TierAvailabilityCheckFailure
         \<or> xferStatus msg = BlobTierFailure"
    by auto
  then show "SendXferDoneMsg msg js
        = js\<lparr>TransfersFailed := TransfersFailed js + 1,
              FailedTransfers := FailedTransfers js @ [msg]\<rparr>"
    by (simp add: SendXferDoneMsg_def)
next
  assume "xferStatus msg \<in> {SkippedEntityAlreadyExists, SkippedBlobHasSnapshots}"
  then have "xferStatus msg \<noteq> Success"
    and "\<not> (xferStatus msg = Failed \<or> xferStatus msg = TierAvailabilityCheckFailure
         \<or> xferStatus msg = BlobTierFailure)"
    and "xferStatus msg = SkippedEntityAlreadyExists \<or> xferStatus msg = SkippedBlobHasSnapshots"
    by auto
  then show "SendXferDoneMsg msg js
        = js\<lparr>TransfersSkipped := TransfersSkipped js + 1,
              SkippedTransfers := SkippedTransfers js @ [msg]\<rparr>"
    by (simp add: SendXferDoneMsg_def)
next
  assume "xferStatus msg \<notin> {Success, Failed, TierAvailabilityCheckFailure, BlobTierFailure,
                          SkippedEntityAlreadyExists, SkippedBlobHasSnapshots}"
  then show "SendXferDoneMsg msg js = js"
    by (simp add: SendXferDoneMsg_def)
qed

text \<open>The theorem at one outcome of each bucket and one of no bucket, on the fresh summary.\<close>

theorem C6_xfer_done_classification_witness:
  "xferStatus (outcome Success 1024) = Success
   \<and> SendXferDoneMsg (outcome Success 1024) zero_summary
       = zero_summary\<lparr>TransfersCompleted := 1, TotalBytesTransferred := 1024\<rparr>
   \<and> xferStatus (outcome BlobTierFailure 7) \<in> {Failed, TierAvailabilityCheckFailure, BlobTierFailure}
   \<and> SendXferDoneMsg (outcome BlobTierFailure 7) zero_summary
       = zero_summary\<lparr>TransfersFailed := 1, FailedTransfers := [outcome BlobTierFailure 7]\<rparr>
   \<and> xferStatus (outcome SkippedEntityAlreadyExists 7)
       \<in> {SkippedEntityAlreadyExists, SkippedBlobHasSnapshots}
   \<and> SendXferDoneMsg (outcome SkippedEntityAlreadyExists 7) zero_summary
       = zero_summary\<lparr>TransfersSkipped := 1,
           SkippedTransfers := [outcome SkippedEntityAlreadyExists 7]\<rparr>
   \<and> xferStatus (outcome (OtherTransferStatus 0) 7)
       \<notin> {Success, Failed, TierAvailabilityCheckFailure, BlobTierFailure,
          SkippedEntityAlreadyExists, SkippedBlobHasSnapshots}
   \<and> SendXferDoneMsg (outcome (OtherTransferStatus 0) 7) zero_summary = zero_summary"
proof -
  have h1: "xferStatus (outcome Success 1024) = Success"
    by (simp add: outcome_def)
  have h2: "xferStatus (outcome BlobTierFailure 7)
      \<in> {Failed, TierAvailabilityCheckFailure, BlobTierFailure}"
    by (simp add: outcome_def)
  have h3: "xferStatus (outcome SkippedEntityAlreadyExists 7)
       \<in> {SkippedEntityAlreadyExists, SkippedBlobHasSnapshots}"
    by (simp add: outcome_def)
  have h4: "xferStatus (outcome (OtherTransferStatus 0) 7)
       \<notin> {Success, Failed, TierAvailabilityCheckFailure, BlobTierFailure,
          SkippedEntityAlreadyExists, SkippedBlobHasSnapshots}"
    by (simp add: outcome_def)
  have z: "TransfersCompleted zero_summary = 0" "TotalBytesTransferred zero_summary = 0"
    "TransfersFailed zero_summary = 0" "FailedTransfers zero_summary = []"
    "TransfersSkipped zero_summary = 0" "SkippedTransfers zero_summary = []"
    by (simp_all add: zero_summary_def)
  have "SendXferDoneMsg (outcome Success 1024) zero_summary
       = zero_summary\<lparr>TransfersCompleted := TransfersCompleted zero_summary + 1,
           TotalBytesTransferred := TotalBytesTransferred zero_summary
             + TransferSize (outcome Success 1024)\<rparr>"
    using C6_xfer_done_classification [of "outcome Success 1024" zero_summary, THEN conjunct1] h1
    by (rule mp)
  then have c1: "SendXferDoneMsg (outcome Success 1024) zero_summary
       = zero_summary\<lparr>TransfersCompleted := 1, TotalBytesTransferred := 1024\<rparr>"
    by (simp add: z outcome_def)
  have "SendXferDoneMsg (outcome BlobTierFailure 7) zero_summary
       = zero_summary\<lparr>TransfersFailed := TransfersFailed zero_summary + 1,
           FailedTransfers := FailedTransfers zero_summary @ [outcome BlobTierFailure 7]\<rparr>"
    using C6_xfer_done_classification [of "outcome BlobTierFailure 7" zero_summary,
        THEN conjunct2, THEN conjunct1] h2
    by (rule mp)
  then have c2: "SendXferDoneMsg (outcome BlobTierFailure 7) zero_summary
       = zero_summary\<lparr>TransfersFailed := 1, FailedTransfers := [outcome BlobTierFailure 7]\<rparr>"
    by (simp add: z)
  have "SendXferDoneMsg (outcome SkippedEntityAlreadyExists 7) zero_summary
       = zero_summary\<lparr>TransfersSkipped := TransfersSkipped zero_summary + 1,
           SkippedTransfers := SkippedTransfers zero_summary
             @ [outcome SkippedEntityAlreadyExists 7]\<rparr>"
    using C6_xfer_done_classification [of "outcome SkippedEntityAlreadyExists 7" zero_summary,
        THEN conjunct2, THEN conjunct2, THEN conjunct1] h3
    by (rule mp)
  then have c3: "SendXferDoneMsg (outcome SkippedEntityAlreadyExists 7) zero_summary
       = zero_summary\<lparr>TransfersSkipped := 1,
           SkippedTransfers := [outcome SkippedEntityAlreadyExists 7]\<rparr>"
    by (simp add: z)
  have c4: "SendXferDoneMsg (outcome (OtherTransferStatus 0) 7) zero_summary = zero_summary"
    using C6_xfer_done_classification [of "outcome (OtherTransferStatus 0) 7" zero_summary,
        THEN conjunct2, THEN conjunct2, THEN conjunct2, THEN conjunct1] h4
    by (rule mp)
  show ?thesis using h1 c1 h2 c2 h3 c3 h4 c4 by (intro conjI)
qed

subsection \<open>Initialisation and snapshot\<close>

lemma InitStatusMgr_installed:
  "InitStatusMgr js (Some installed) = (Some StatusMgrAlreadyInit, Some installed)"
  by (simp add: InitStatusMgr_def Panic_def)

lemma sm_init_all_installed:
  "sm_init_all calls (Some installed) = Some installed"
  unfolding sm_init_all_def
  by (induction calls) (simp_all add: InitStatusMgr_installed)

text \<open>
  Claim C5. \<open>InitStatusMgr\<close> installs the given summary when none is installed.
  When one is installed the call fails with "StatusMgr already init", and the
  installed summary is afterwards what it was, field for field. Hence in every
  sequence of calls that starts with nothing installed, the summary of the first
  call stays installed whatever the later calls pass.
\<close>

theorem C5_init_once:
  "InitStatusMgr js None = (None, js)
   \<and> InitStatusMgr js (Some installed) = (Some StatusMgrAlreadyInit, Some installed)
   \<and> sm_init_all (Some first # later) None = Some first
   \<and> sm_init_all later (Some installed) = Some installed"
proof (intro conjI)
  show "InitStatusMgr js None = (None, js)"
    by (simp add: InitStatusMgr_def)
  show "InitStatusMgr js (Some installed) = (Some StatusMgrAlreadyInit, Some installed)"
    by (rule InitStatusMgr_installed)
  show "sm_init_all later (Some installed) = Some installed"
    by (rule sm_init_all_installed)
  have "sm_init_all (Some first # later) None = sm_init_all later (Some first)"
    by (simp add: sm_init_all_def InitStatusMgr_def)
  then show "sm_init_all (Some first # later) None = Some first"
    by (simp only: sm_init_all_installed)
qed

text \<open>
  Claim C2 as stated fails. In the first variant a stored summary whose
  fully-enumerated flag is true has the flag false after \<open>ListJobSummary\<close>: the
  snapshot changed a flag of the stored summary. In the second variant the snapshot
  taken after seeding a summary stamped 5 still carries the timestamp 5, not a fresh
  one, and with no summary installed the snapshot fails.
\<close>

theorem C2_snapshot_flag_and_timestamp:
  "CompleteJobOrdered (zero_summary\<lparr>CompleteJobOrdered := True\<rparr>)
   \<and> \<not> CompleteJobOrdered
         (fst (ListJobSummary1 1700000000 7 (zero_summary\<lparr>CompleteJobOrdered := True\<rparr>)))
   \<and> ListJobSummary2 (snd (InitStatusMgr (Some (zero_summary\<lparr>Timestamp := 5\<rparr>)) None))
       = Inr (zero_summary\<lparr>Timestamp := 5\<rparr>)
   \<and> ListJobSummary2 None = Inl NilPointerDereference"
  by (simp add: ListJobSummary1_def ListJobSummary2_def InitStatusMgr_def Let_def zero_summary_def)

lemma ListJobSummary1_counters:
  "counters_and_details (fst (ListJobSummary1 now jobID js)) = counters_and_details js"
  by (simp add: ListJobSummary1_def counters_and_details_def Let_def)

lemma snapshots1_counters:
  "counters_and_details (snapshots1 calls js) = counters_and_details js"
  unfolding snapshots1_def
proof (induction calls arbitrary: js)
  case Nil
  show ?case by simp
next
  case (Cons c calls)
  obtain now jobID where c: "c = (now, jobID)" by (cases c)
  show ?case
    by (simp add: c Cons.IH ListJobSummary1_counters)
qed

text \<open>
  Claim C2, as amended. Second variant: with a summary installed,
  \<open>ListJobSummary\<close> returns exactly the stored summary, timestamp included, and
  writes nothing; seeded by \<open>InitStatusMgr\<close> with any summary and not updated, it
  returns that summary; with no summary installed it fails. First variant:
  \<open>ListJobSummary\<close> returns a copy equal to the stored summary after the call,
  whose timestamp is the current time and whose counters and detail lists are
  those of the stored summary before the call; they are still the same after any
  number of snapshots.
\<close>

theorem C2_snapshot:
  "ListJobSummary2 (Some js) = Inr js
   \<and> ListJobSummary2 (snd (InitStatusMgr (Some seed) None)) = Inr seed
   \<and> ListJobSummary2 None = Inl NilPointerDereference
   \<and> snd (ListJobSummary1 now jobID js) = fst (ListJobSummary1 now jobID js)
   \<and> Timestamp (snd (ListJobSummary1 now jobID js)) = now
   \<and> TotalTransfers (snd (ListJobSummary1 now jobID js)) = TotalTransfers js
   \<and> FileTransfers (snd (ListJobSummary1 now jobID js)) = FileTransfers js
   \<and> FolderPropertyTransfers (snd (ListJobSummary1 now jobID js)) = FolderPropertyTransfers js
   \<and> TransfersCompleted (snd (ListJobSummary1 now jobID js)) = TransfersCompleted js
   \<and> TransfersFailed (snd (ListJobSummary1 now jobID js)) = TransfersFailed js
   \<and> TransfersSkipped (snd (ListJobSummary1 now jobID js)) = TransfersSkipped js
   \<and> TotalBytesEnumerated (snd (ListJobSummary1 now jobID js)) = TotalBytesEnumerated js
   \<and> TotalBytesExpected (snd (ListJobSummary1 now jobID js)) = TotalBytesExpected js
   \<and> TotalBytesTransferred (snd (ListJobSummary1 now jobID js)) = TotalBytesTransferred js
   \<and> FailedTransfers (snd (ListJobSummary1 now jobID js)) = FailedTransfers js
   \<and> SkippedTransfers (snd (ListJobSummary1 now jobID js)) = SkippedTransfers js
   \<and> counters_and_details (snapshots1 calls js) = counters_and_details js"
proof -
  have seq: "counters_and_details (snapshots1 calls js) = counters_and_details js"
    by (rule snapshots1_counters)
  have one: "counters_and_details (fst (ListJobSummary1 now jobID js)) = counters_and_details js"
    by (rule ListJobSummary1_counters)
  have same: "snd (ListJobSummary1 now jobID js) = fst (ListJobSummary1 now jobID js)"
    by (simp add: ListJobSummary1_def Let_def)
  have stamp: "Timestamp (snd (ListJobSummary1 now jobID js)) = now"
    by (simp add: ListJobSummary1_def Let_def)
  have v2: "ListJobSummary2 (Some js) = Inr js"
    "ListJobSummary2 (snd (InitStatusMgr (Some seed) None)) = Inr seed"
    "ListJobSummary2 None = Inl NilPointerDereference"
    by (simp_all add: ListJobSummary2_def InitStatusMgr_def)
  from one have fields:
    "TotalTransfers (snd (ListJobSummary1 now jobID js)) = TotalTransfers js"
    "FileTransfers (snd (ListJobSummary1 now jobID js)) = FileTransfers js"
    "FolderPropertyTransfers (snd (ListJobSummary1 now jobID js)) = FolderPropertyTransfers js"
    "TransfersCompleted (snd (ListJobSummary1 now jobID js)) = TransfersCompleted js"
    "TransfersFailed (snd (ListJobSummary1 now jobID js)) = TransfersFailed js"
    "TransfersSkipped (snd (ListJobSummary1 now jobID js)) = TransfersSkipped js"
    "TotalBytesEnumerated (snd (ListJobSummary1 now jobID js)) = TotalBytesEnumerated js"
    "TotalBytesExpected (snd (ListJobSummary1 now jobID js)) = TotalBytesExpected js"
    "TotalBytesTransferred (snd (ListJobSummary1 now jobID js)) = TotalBytesTransferred js"
    "FailedTransfers (snd (ListJobSummary1 now jobID js)) = FailedTransfers js"
    "SkippedTransfers (snd (ListJobSummary1 now jobID js)) = SkippedTransfers js"
    unfolding same by (simp_all add: counters_and_details_def)
  show ?thesis
    using v2 same stamp fields seq by (intro conjI)
qed

subsection \<open>The dispatcher\<close>



end
